theory Spec2Isabelle
  imports Main "HOL-Library.Sublist"
begin

section \<open>JSON values and JavaScript objects\<close>

text \<open>
  Documents, the database state and the journal hold JSON data only: everything that
  reaches the store over HTTP or from a file went through \<^verbatim>\<open>JSON.parse\<close>. Numbers
  are modelled as integers (fractions, exponents and the IEEE special values are outside
  the model); a string is a list of characters.
\<close>

datatype json =
    JNull
  | JBool bool
  | JNum int
  | JStr string
  | JArr "json list"
  | JObj "(string \<times> json) list"

text \<open>
  A JavaScript object with string keys (\<^verbatim>\<open>Record<string, V>\<close>) is an association list in
  property order. Reading a missing key gives \<^verbatim>\<open>undefined\<close> (\<open>None\<close>); assigning to
  an existing key keeps its position, assigning to a new key appends it; \<^verbatim>\<open>delete\<close>
  removes the key. A well-formed object has distinct keys. (JavaScript enumerates keys
  that look like array indices before all others; that reordering is not modelled.)
  \<open>prop_get\<close>, \<open>prop_set\<close> and \<open>prop_delete\<close> work on the own properties; \<open>prop_set\<close> is
  also what a spread or an object literal does for each property it defines.
\<close>

type_synonym 'v js_record = "(string \<times> 'v) list"

fun prop_get :: "'v js_record \<Rightarrow> string \<Rightarrow> 'v option" where
  "prop_get [] k = None"
| "prop_get ((k', v) # rest) k = (if k' = k then Some v else prop_get rest k)"

fun prop_set :: "'v js_record \<Rightarrow> string \<Rightarrow> 'v \<Rightarrow> 'v js_record" where
  "prop_set [] k v = [(k, v)]"
| "prop_set ((k', v') # rest) k v =
     (if k' = k then (k', v) # rest else (k', v') # prop_set rest k v)"

fun prop_delete :: "'v js_record \<Rightarrow> string \<Rightarrow> 'v js_record" where
  "prop_delete [] k = []"
| "prop_delete ((k', v') # rest) k =
     (if k' = k then prop_delete rest k else (k', v') # prop_delete rest k)"

text \<open>\<^verbatim>\<open>{ ...a, ...b }\<close>: a copy of \<open>a\<close> in which the properties of \<open>b\<close> are defined in order.\<close>

definition spread :: "'v js_record \<Rightarrow> 'v js_record \<Rightarrow> 'v js_record" where
  "spread a b = fold (\<lambda>(k, v) out. prop_set out k v) b a"

subsection \<open>The prototype chain\<close>

text \<open>
  The objects of the store are plain objects, whose prototype is \<^verbatim>\<open>Object.prototype\<close>.
  A read \<^verbatim>\<open>obj[k]\<close> of a key that the object does not own resolves through the prototype
  chain: for the twelve member names of \<^verbatim>\<open>Object.prototype\<close> (Node.js 20) it gives the
  member, and \<^verbatim>\<open>undefined\<close> for every other key. Eleven members are functions; the
  member \<^verbatim>\<open>__proto__\<close> is an accessor whose getter gives \<^verbatim>\<open>Object.prototype\<close> itself.
  Every member is truthy, none is a JSON value, and none has an enumerable own property.
\<close>

definition Object_prototype_keys :: "string list" where
  "Object_prototype_keys =
     [''constructor'', ''__defineGetter__'', ''__defineSetter__'', ''hasOwnProperty'',
      ''__lookupGetter__'', ''__lookupSetter__'', ''isPrototypeOf'', ''propertyIsEnumerable'',
      ''toString'', ''valueOf'', ''__proto__'', ''toLocaleString'']"

datatype 'v property = Undefined | Own 'v | Inherited string

definition prop_read :: "'v js_record \<Rightarrow> string \<Rightarrow> 'v property" where
  "prop_read obj k =
     (case prop_get obj k of
        Some v \<Rightarrow> Own v
      | None \<Rightarrow> if k \<in> set Object_prototype_keys then Inherited k else Undefined)"

text \<open>
  An assignment \<^verbatim>\<open>obj[k] = v\<close> changes the own property when the object owns \<open>k\<close> and
  creates it when the object does not, except for the key \<^verbatim>\<open>__proto__\<close>: when the object
  does not own it, the assignment calls the setter of \<^verbatim>\<open>Object.prototype\<close>, which changes
  the prototype of the object (for an object or \<^verbatim>\<open>null\<close>) or does nothing (for another
  value) and adds no property. The model holds the own properties only: the prototype that
  such an assignment installs is not represented, and later reads of the object are
  modelled as before.
\<close>

definition prop_assign :: "'v js_record \<Rightarrow> string \<Rightarrow> 'v \<Rightarrow> 'v js_record" where
  "prop_assign obj k v =
     (if k = ''__proto__'' \<and> prop_get obj k = None then obj else prop_set obj k v)"

text \<open>The own enumerable properties of the value that a read gave, which is what a
  spread of it copies: those of an own object, none of an inherited member.\<close>

fun own_fields :: "'v js_record property \<Rightarrow> 'v js_record" where
  "own_fields (Own obj) = obj"
| "own_fields _ = []"

section \<open>utils: isObject and deepMerge\<close>

text \<open>
  \<^verbatim>\<open>isObject(v)\<close>: \<^verbatim>\<open>typeof v === 'object' && v !== null && !Array.isArray(v)\<close>.
  The argument is what a read gave: an own value, \<^verbatim>\<open>undefined\<close>, or a member of
  \<^verbatim>\<open>Object.prototype\<close>, of which only \<^verbatim>\<open>__proto__\<close> (the prototype object) is an object;
  the others are functions.
\<close>

fun isObject :: "json property \<Rightarrow> bool" where
  "isObject (Own (JObj _)) = True"
| "isObject (Inherited k) = (k = ''__proto__'')"
| "isObject _ = False"

text \<open>\<^verbatim>\<open>{ ...v }\<close> for a value \<open>v\<close> that \<open>isObject\<close> accepts.\<close>

fun own_properties :: "json property \<Rightarrow> json js_record" where
  "own_properties (Own (JObj fields)) = fields"
| "own_properties _ = []"

text \<open>
  \<^verbatim>\<open>deepMerge(a, b)\<close>: \<open>out\<close> starts as a copy of \<open>a\<close>; the loop runs over the entries of
  \<open>b\<close> in order. When the incoming value and the current \<open>out[k]\<close> are both plain objects
  the result of the recursive call is assigned to \<open>out[k]\<close>, otherwise the incoming value
  is assigned (the source's test \<^verbatim>\<open>v !== undefined\<close> is always true of a JSON value).
  Both the read and the assignment of \<open>out[k]\<close> go through the prototype chain.
  The first argument of the function is the running \<open>out\<close>.
\<close>

function deepMerge :: "json js_record \<Rightarrow> json js_record \<Rightarrow> json js_record" where
  "deepMerge out [] = out"
| "deepMerge out ((k, v) # b) =
     (if isObject (Own v) \<and> isObject (prop_read out k)
      then deepMerge
             (prop_assign out k
                (JObj (deepMerge (own_properties (prop_read out k)) (own_properties (Own v))))) b
      else deepMerge (prop_assign out k v) b)"
  by pat_completeness auto
termination
proof (relation "measure (\<lambda>(out, b). size_list (size_prod (\<lambda>_. 0) size) b)")
  show "wf (measure (\<lambda>(out, b :: json js_record). size_list (size_prod (\<lambda>_. 0) size) b))"
    by simp
next
  fix out :: "json js_record" and k v b
  assume "isObject (Own v) \<and> isObject (prop_read out k)"
  then have "size_list (size_prod (\<lambda>_. 0) size) (own_properties (Own v)) < Suc (size v)"
    by (cases v) auto
  then show "((own_properties (prop_read out k), own_properties (Own v)), out, (k, v) # b)
             \<in> measure (\<lambda>(out, b). size_list (size_prod (\<lambda>_. 0) size) b)"
    by simp
qed auto

text \<open>The value that \<open>deepMerge\<close> assigns at a key of the partial object.\<close>

definition merged_value :: "json property \<Rightarrow> json \<Rightarrow> json" where
  "merged_value existing v =
     (if isObject (Own v) \<and> isObject existing
      then JObj (deepMerge (own_properties existing) (own_properties (Own v)))
      else v)"

section \<open>utils: conversions of the language\<close>

text \<open>
  A value used as a property key is converted to a string (\<^verbatim>\<open>String(v)\<close>):
  \<^verbatim>\<open>undefined\<close> and \<^verbatim>\<open>null\<close> give their names, an array joins its elements with
  commas (\<^verbatim>\<open>null\<close> elements as the empty string), an object gives \<^verbatim>\<open>[object Object]\<close>.
\<close>

fun show_nat :: "nat \<Rightarrow> string" where
  "show_nat n =
     (if n < 10 then [''0123456789'' ! n]
      else show_nat (n div 10) @ [''0123456789'' ! (n mod 10)])"

definition show_int :: "int \<Rightarrow> string" where
  "show_int i = (if i < 0 then CHR ''-'' # show_nat (nat (- i)) else show_nat (nat i))"

fun join_comma :: "string list \<Rightarrow> string" where
  "join_comma [] = []"
| "join_comma [s] = s"
| "join_comma (s # t # rest) = s @ '','' @ join_comma (t # rest)"

fun js_String :: "json \<Rightarrow> string" where
  "js_String JNull = ''null''"
| "js_String (JBool b) = (if b then ''true'' else ''false'')"
| "js_String (JNum n) = show_int n"
| "js_String (JStr s) = s"
| "js_String (JArr xs) = join_comma (map (\<lambda>x. if x = JNull then [] else js_String x) xs)"
| "js_String (JObj _) = ''[object Object]''"

definition property_key :: "json option \<Rightarrow> string" where
  "property_key v = (case v of None \<Rightarrow> ''undefined'' | Some x \<Rightarrow> js_String x)"

text \<open>\<^verbatim>\<open>v.k\<close> on a value that is neither \<^verbatim>\<open>null\<close> nor \<^verbatim>\<open>undefined\<close>, for a key that
  no prototype defines.\<close>

definition member :: "json \<Rightarrow> string \<Rightarrow> json option" where
  "member v k = (case v of JObj fields \<Rightarrow> prop_get fields k | _ \<Rightarrow> None)"

text \<open>
  The own enumerable properties of a value, which is what a spread \<^verbatim>\<open>{...v}\<close> copies:
  none for \<^verbatim>\<open>undefined\<close>, \<^verbatim>\<open>null\<close>, booleans and numbers, the indexed characters of a
  string, the indexed elements of an array, the fields of an object.
\<close>

definition indexed :: "'a list \<Rightarrow> 'a js_record" where
  "indexed xs = zip (map show_nat [0..<length xs]) xs"

definition own_entries :: "json option \<Rightarrow> json js_record" where
  "own_entries v =
     (case v of
        Some (JStr s) \<Rightarrow> indexed (map (\<lambda>c. JStr [c]) s)
      | Some (JArr xs) \<Rightarrow> indexed xs
      | Some (JObj fields) \<Rightarrow> fields
      | _ \<Rightarrow> [])"

text \<open>\<^verbatim>\<open>Object.entries(v)\<close> throws a TypeError on \<^verbatim>\<open>null\<close> (\<open>None\<close> here).\<close>

definition Object_entries :: "json \<Rightarrow> json js_record option" where
  "Object_entries v = (case v of JNull \<Rightarrow> None | _ \<Rightarrow> Some (own_entries (Some v)))"

text \<open>
  \<^verbatim>\<open>x === y\<close> for two values that are read from different documents, or from a document
  and a freshly parsed filter: primitives are compared by value, \<^verbatim>\<open>undefined\<close> equals
  only itself, and two objects or arrays are distinct references, hence never equal.
\<close>

fun strict_equals :: "json option \<Rightarrow> json option \<Rightarrow> bool" where
  "strict_equals None None = True"
| "strict_equals (Some JNull) (Some JNull) = True"
| "strict_equals (Some (JBool a)) (Some (JBool b)) = (a = b)"
| "strict_equals (Some (JNum a)) (Some (JNum b)) = (a = b)"
| "strict_equals (Some (JStr a)) (Some (JStr b)) = (a = b)"
| "strict_equals _ _ = False"

text \<open>\<^verbatim>\<open>!line.trim()\<close>: the line holds white space only (ASCII white space in this model).\<close>

definition is_blank :: "string \<Rightarrow> bool" where
  "is_blank line = list_all (\<lambda>c. c \<in> set [CHR '' '', CHR 0x09, CHR 0x0A, CHR 0x0B, CHR 0x0C, CHR 0x0D]) line"

text \<open>\<^verbatim>\<open>s.includes(t)\<close>: \<open>t\<close> occurs in \<open>s\<close> as a contiguous substring.\<close>

fun str_includes :: "string \<Rightarrow> string \<Rightarrow> bool" where
  "str_includes [] t = (t = [])"
| "str_includes (c # cs) t = (prefix t (c # cs) \<or> str_includes cs t)"

text \<open>\<^verbatim>\<open>s.split(':')\<close>.\<close>

fun split_colon :: "string \<Rightarrow> string list" where
  "split_colon [] = [[]]"
| "split_colon (c # cs) =
     (if c = CHR '':'' then [] # split_colon cs
      else (case split_colon cs of [] \<Rightarrow> [[c]] | w # ws \<Rightarrow> (c # w) # ws))"

text \<open>
  \<^verbatim>\<open>xs.slice(start, end)\<close> on integers: a negative bound counts from the end of the
  array, and both bounds are clamped to the array.
\<close>

definition slice :: "'a list \<Rightarrow> int \<Rightarrow> int \<Rightarrow> 'a list" where
  "slice xs start stop =
     (let len = int (length xs);
          k = (if start < 0 then max (len + start) 0 else min start len);
          final = (if stop < 0 then max (len + stop) 0 else min stop len)
      in take (nat (final - k)) (drop (nat k) xs))"

text \<open>
  The library functions whose code is not part of the repository are parameters of the
  model: \<^verbatim>\<open>JSON.parse\<close> (\<open>None\<close> when it throws a SyntaxError), \<^verbatim>\<open>JSON.stringify\<close>,
  \<^verbatim>\<open>String.prototype.toLowerCase\<close>, \<^verbatim>\<open>Array.prototype.sort\<close> with a comparator, and
  the relational operator \<^verbatim>\<open>>\<close> on two property values.
\<close>

record js_builtins =
  JSON_parse :: "string \<Rightarrow> json option"
  JSON_stringify :: "json \<Rightarrow> string"
  toLowerCase :: "string \<Rightarrow> string"
  array_sort :: "(json js_record \<Rightarrow> json js_record \<Rightarrow> int) \<Rightarrow> json js_record list \<Rightarrow> json js_record list"
  greater_than :: "json option \<Rightarrow> json option \<Rightarrow> bool"

section \<open>utils: parseSort and filterByQuery\<close>

text \<open>\<^verbatim>\<open>parseSort(sort)\<close>: \<^verbatim>\<open>undefined\<close> for a missing or empty string, else the field
  before the first colon and the direction \<open>-1\<close> when the second part is \<^verbatim>\<open>desc\<close>.\<close>

definition parseSort :: "string option \<Rightarrow> (string \<times> int) option" where
  "parseSort sort_arg =
     (case sort_arg of
        None \<Rightarrow> None
      | Some s \<Rightarrow>
          if s = [] then None
          else (case split_colon s of
                  [] \<Rightarrow> None
                | field # rest \<Rightarrow>
                    Some (field, if (case rest of [] \<Rightarrow> False | dir # _ \<Rightarrow> dir = ''desc'') then - 1 else 1)))"

text \<open>
  \<^verbatim>\<open>filterByQuery(doc, q)\<close>: a missing or empty \<open>q\<close> matches. Otherwise the \<^verbatim>\<open>try\<close> block
  parses \<open>q\<close> and checks every entry of the parsed value against the document with
  \<^verbatim>\<open>===\<close>; when \<^verbatim>\<open>JSON.parse\<close> or \<^verbatim>\<open>Object.entries\<close> throws, the \<^verbatim>\<open>catch\<close> block
  searches the lower-cased serialisation of the document for the lower-cased text.
  The read \<^verbatim>\<open>doc[k]\<close> is modelled by the own property: a member that the document
  inherits is a function or an object, which \<^verbatim>\<open>===\<close> never equates with a parsed value.
\<close>

definition filterByQuery :: "js_builtins \<Rightarrow> json js_record \<Rightarrow> string option \<Rightarrow> bool" where
  "filterByQuery B doc q_arg =
     (case q_arg of
        None \<Rightarrow> True
      | Some q \<Rightarrow>
          if q = [] then True
          else (case (case JSON_parse B q of None \<Rightarrow> None | Some obj \<Rightarrow> Object_entries obj) of
                  Some entries \<Rightarrow> list_all (\<lambda>(k, v). strict_equals (prop_get doc k) (Some v)) entries
                | None \<Rightarrow> str_includes (toLowerCase B (JSON_stringify B (JObj doc))) (toLowerCase B q)))"

section \<open>types\<close>

type_synonym Document = "json js_record"

record QueryOptions =
  q_opt :: "string option"
  limit_opt :: "int option"
  offset_opt :: "int option"
  sort_opt :: "string option"

text \<open>An element of a batch; \<open>Op_other\<close> is an element whose \<^verbatim>\<open>op\<close> is none of the four
  strings of the type, which the server passes on unchecked.\<close>

datatype BulkOperation =
    Op_insert Document
  | Op_update string Document
  | Op_patch string Document
  | Op_delete string
  | Op_other string

section \<open>storage: state, journal and files\<close>

record DBState =
  collections :: "Document js_record js_record"

datatype JournalEntry =
    Entry_insert string Document
  | Entry_update string string Document
  | Entry_delete string string

text \<open>
  A line of the journal file is the serialisation of one entry, which \<^verbatim>\<open>JSON.parse\<close>
  reads back as that entry, or text on which \<^verbatim>\<open>JSON.parse\<close> throws. The snapshot file
  is absent or unreadable (\<open>None\<close>) or holds a serialised state.
\<close>

datatype journal_line = Parsed JournalEntry | Unparsable

record ShelfDB =
  state :: DBState
  dataFile :: "DBState option"
  journalFile :: "journal_line list"

datatype error = SyntaxError | TypeError | Error string

record QueryResult =
  total :: nat
  items :: "Document list"

text \<open>
  The documents that \<^verbatim>\<open>Object.values(this.state.collections[collection] || {})\<close>
  enumerates: those of the collection that the state owns, none otherwise (a collection
  name that the state does not own resolves to nothing or to a member of
  \<^verbatim>\<open>Object.prototype\<close>, which has no enumerable property).
\<close>

definition collection_or_empty :: "DBState \<Rightarrow> string \<Rightarrow> Document js_record" where
  "collection_or_empty st collection =
     (case prop_get (collections st) collection of None \<Rightarrow> [] | Some col \<Rightarrow> col)"

text \<open>
  \<^verbatim>\<open>this.state.collections[collection] ||= {}\<close>: creates the collection when the read
  gives \<^verbatim>\<open>undefined\<close>. For a name of a member of \<^verbatim>\<open>Object.prototype\<close> that the state does
  not own, the read gives the member, and nothing is created.
\<close>

definition ensure_collection :: "DBState \<Rightarrow> string \<Rightarrow> DBState" where
  "ensure_collection st collection =
     (case prop_read (collections st) collection of
        Undefined \<Rightarrow> st\<lparr>collections := prop_set (collections st) collection []\<rparr>
      | Own col \<Rightarrow> st
      | Inherited k \<Rightarrow> st)"

text \<open>
  \<^verbatim>\<open>(this.state.collections[collection] ||= {})[id] = doc\<close>. When the collection name
  resolves to a member of \<^verbatim>\<open>Object.prototype\<close>, the assignment lands on that built-in
  object and the state is unchanged; the built-in objects are not part of the model.
\<close>

definition store_doc :: "DBState \<Rightarrow> string \<Rightarrow> string \<Rightarrow> Document \<Rightarrow> DBState" where
  "store_doc st collection doc_id doc =
     (case prop_read (collections st) collection of
        Undefined \<Rightarrow>
          st\<lparr>collections := prop_set (collections st) collection (prop_assign [] doc_id doc)\<rparr>
      | Own col \<Rightarrow>
          st\<lparr>collections := prop_set (collections st) collection (prop_assign col doc_id doc)\<rparr>
      | Inherited k \<Rightarrow> st)"

text \<open>\<^verbatim>\<open>delete col[id]\<close> on a collection \<open>col\<close> of the state removes an own property;
  nothing changes when the state does not own the collection or the collection does not
  own the id.\<close>

definition remove_doc :: "DBState \<Rightarrow> string \<Rightarrow> string \<Rightarrow> DBState" where
  "remove_doc st collection doc_id =
     (case prop_get (collections st) collection of
        None \<Rightarrow> st
      | Some col \<Rightarrow> st\<lparr>collections := prop_set (collections st) collection (prop_delete col doc_id)\<rparr>)"

text \<open>
  \<^verbatim>\<open>get(collection, id)\<close>: \<^verbatim>\<open>(this.state.collections[collection] || {})[id]\<close>, both reads
  through the prototype chain. For an id that names a member of \<^verbatim>\<open>Object.prototype\<close> and
  that the collection does not own, the result is that member, not \<^verbatim>\<open>undefined\<close>. A
  collection name that resolves to a member of \<^verbatim>\<open>Object.prototype\<close> is read like the empty
  object: the own members of the built-in objects (such as \<^verbatim>\<open>Object.keys\<close>) are not
  modelled.
\<close>

definition get :: "DBState \<Rightarrow> string \<Rightarrow> string \<Rightarrow> Document property" where
  "get st collection doc_id =
     (case prop_read (collections st) collection of
        Own col \<Rightarrow> prop_read col doc_id
      | Undefined \<Rightarrow> prop_read [] doc_id
      | Inherited k \<Rightarrow> prop_read [] doc_id)"

text \<open>\<^verbatim>\<open>applyJournal(entry)\<close>; the test \<^verbatim>\<open>!existing\<close> fails for a stored document and for
  an inherited member alike.\<close>

fun applyJournal :: "DBState \<Rightarrow> JournalEntry \<Rightarrow> DBState" where
  "applyJournal st (Entry_insert collection doc) =
     store_doc st collection (property_key (prop_get doc ''_id'')) doc"
| "applyJournal st (Entry_update collection doc_id doc) =
     (let st1 = ensure_collection st collection
      in case get st1 collection doc_id of
           Undefined \<Rightarrow> st1
         | existing \<Rightarrow> store_doc st1 collection doc_id (deepMerge (own_fields existing) doc))"
| "applyJournal st (Entry_delete collection doc_id) =
     remove_doc (ensure_collection st collection) collection doc_id"

text \<open>\<^verbatim>\<open>load()\<close>: the snapshot, or the empty state when there is none, then every journal
  line in file order; a line that does not parse is skipped. (An entry of the model is
  well-typed, so that \<open>applyJournal\<close> does not throw on it.)\<close>

definition load :: "ShelfDB \<Rightarrow> ShelfDB" where
  "load db =
     db\<lparr>state :=
          fold (\<lambda>line st. case line of Parsed entry \<Rightarrow> applyJournal st entry | Unparsable \<Rightarrow> st)
            (journalFile db)
            (case dataFile db of None \<Rightarrow> \<lparr>collections = []\<rparr> | Some snapshot \<Rightarrow> snapshot)\<rparr>"

definition writeJournal :: "ShelfDB \<Rightarrow> JournalEntry \<Rightarrow> ShelfDB" where
  "writeJournal db entry = db\<lparr>journalFile := journalFile db @ [Parsed entry]\<rparr>"

definition writeJournalBatch :: "ShelfDB \<Rightarrow> JournalEntry list \<Rightarrow> ShelfDB" where
  "writeJournalBatch db entries =
     (if entries = [] then db else db\<lparr>journalFile := journalFile db @ map Parsed entries\<rparr>)"

section \<open>storage: query\<close>

text \<open>
  \<^verbatim>\<open>query(collection, opts)\<close>: the documents of the collection in property order,
  filtered (\<open>matching_docs\<close>); \<open>total\<close> is their number; then the optional sort
  (\<open>sorted_docs\<close>), whose comparator gives \<open>0\<close> on \<^verbatim>\<open>===\<close> values and otherwise \<open>dir\<close>
  or \<open>-dir\<close> by \<^verbatim>\<open>>\<close>; then \<^verbatim>\<open>slice(offset, offset + limit)\<close> with the defaults \<open>0\<close>
  and \<open>100\<close>. The method has no check of \<open>offset\<close> or \<open>limit\<close> and no \<^verbatim>\<open>throw\<close>.
\<close>

definition matching_docs :: "js_builtins \<Rightarrow> DBState \<Rightarrow> string \<Rightarrow> string option \<Rightarrow> Document list" where
  "matching_docs B st collection q_arg =
     filter (\<lambda>d. filterByQuery B d q_arg) (map snd (collection_or_empty st collection))"

definition sorted_docs :: "js_builtins \<Rightarrow> string option \<Rightarrow> Document list \<Rightarrow> Document list" where
  "sorted_docs B sort_arg docs =
     (case parseSort sort_arg of
        None \<Rightarrow> docs
      | Some (field, dir) \<Rightarrow>
          array_sort B
            (\<lambda>a b. let va = prop_get a field; vb = prop_get b field
                   in if strict_equals va vb then 0
                      else if greater_than B va vb then dir else - dir)
            docs)"

definition query :: "js_builtins \<Rightarrow> DBState \<Rightarrow> string \<Rightarrow> QueryOptions \<Rightarrow> QueryResult" where
  "query B st collection opts =
     (let filtered = matching_docs B st collection (q_opt opts);
          sorted = sorted_docs B (sort_opt opts) filtered;
          offset = (case offset_opt opts of None \<Rightarrow> 0 | Some n \<Rightarrow> n);
          limit = (case limit_opt opts of None \<Rightarrow> 100 | Some n \<Rightarrow> n)
      in \<lparr>total = length filtered, items = slice sorted offset (offset + limit)\<rparr>)"

text \<open>
  The handler of \<^verbatim>\<open>GET /db/:collection\<close> (server.ts), after the conversion of the query
  string with \<^verbatim>\<open>Number\<close>: a supplied \<open>limit\<close> or \<open>offset\<close> that is not finite or is
  negative makes the handler throw before \<open>query\<close> is called. An integer is always
  finite, and the handler does not test that the number is an integer.
\<close>

definition get_collection_handler ::
  "js_builtins \<Rightarrow> ShelfDB \<Rightarrow> string \<Rightarrow> QueryOptions \<Rightarrow> error + QueryResult" where
  "get_collection_handler B db collection opts =
     (if (case limit_opt opts of None \<Rightarrow> False | Some n \<Rightarrow> n < 0) then Inl (Error ''Invalid limit'')
      else if (case offset_opt opts of None \<Rightarrow> False | Some n \<Rightarrow> n < 0) then Inl (Error ''Invalid offset'')
      else Inr (query B (state db) collection opts))"

section \<open>storage: single-document mutations\<close>

text \<open>
  The random identifier (\<^verbatim>\<open>uuidv4()\<close>) and the time stamp
  (\<^verbatim>\<open>new Date().toISOString()\<close>) that a call draws are arguments of the model.
  \<open>update\<close>, \<open>patch\<close> and \<open>delete\<close> return \<^verbatim>\<open>undefined\<close> or \<^verbatim>\<open>false\<close>, before they
  change anything, when the read of the id gives a falsy value, which is \<^verbatim>\<open>undefined\<close>
  only: a stored document is an object and an inherited member is a function or an
  object. For an inherited member they go on; its spread copies no property.
\<close>

definition insert_doc ::
  "ShelfDB \<Rightarrow> string \<Rightarrow> json js_record \<Rightarrow> string \<Rightarrow> string \<Rightarrow> Document \<times> ShelfDB" where
  "insert_doc db collection doc uuid now =
     (let full = prop_set (prop_set (prop_set doc ''_id'' (JStr uuid))
                    ''_createdAt'' (JStr now)) ''_updatedAt'' (JStr now);
          db1 = db\<lparr>state := store_doc (state db) collection (property_key (prop_get full ''_id'')) full\<rparr>
      in (full, writeJournal db1 (Entry_insert collection full)))"

definition update ::
  "ShelfDB \<Rightarrow> string \<Rightarrow> string \<Rightarrow> json js_record \<Rightarrow> string \<Rightarrow> Document option \<times> ShelfDB" where
  "update db collection doc_id doc now =
     (case get (state db) collection doc_id of
        Undefined \<Rightarrow> (None, db)
      | existing \<Rightarrow>
          (let updated = prop_set (spread (own_fields existing) doc) ''_updatedAt'' (JStr now);
               db1 = db\<lparr>state := store_doc (state db) collection doc_id updated\<rparr>
           in (Some updated, writeJournal db1 (Entry_update collection doc_id updated))))"

definition patch ::
  "ShelfDB \<Rightarrow> string \<Rightarrow> string \<Rightarrow> json js_record \<Rightarrow> string \<Rightarrow> Document option \<times> ShelfDB" where
  "patch db collection doc_id doc now =
     (case get (state db) collection doc_id of
        Undefined \<Rightarrow> (None, db)
      | existing \<Rightarrow>
          (let patched = deepMerge (own_fields existing) (prop_set doc ''_updatedAt'' (JStr now));
               db1 = db\<lparr>state := store_doc (state db) collection doc_id patched\<rparr>
           in (Some patched, writeJournal db1 (Entry_update collection doc_id patched))))"

definition delete :: "ShelfDB \<Rightarrow> string \<Rightarrow> string \<Rightarrow> bool \<times> ShelfDB" where
  "delete db collection doc_id =
     (case get (state db) collection doc_id of
        Undefined \<Rightarrow> (False, db)
      | existing \<Rightarrow>
          (let db1 = db\<lparr>state := remove_doc (state db) collection doc_id\<rparr>
           in (True, writeJournal db1 (Entry_delete collection doc_id))))"

section \<open>storage: bulk\<close>

text \<open>
  One pass of the loop body of \<^verbatim>\<open>bulk\<close> on the state, the results and the journal batch
  collected so far; \<open>Inl\<close> is the \<^verbatim>\<open>throw\<close>. The not-found tests are the truthiness tests
  of the single-document methods; an element that matches no branch of the
  \<^verbatim>\<open>if\<close>/\<^verbatim>\<open>else if\<close> chain is passed over.
\<close>

type_synonym bulk_acc = "DBState \<times> json list \<times> JournalEntry list"

fun bulk_step :: "string \<Rightarrow> string \<Rightarrow> string \<Rightarrow> BulkOperation \<Rightarrow> bulk_acc \<Rightarrow> error + bulk_acc" where
  "bulk_step uuid now collection (Op_insert doc) (st, results, journalBatch) =
     (let full = prop_set (prop_set (prop_set doc ''_id'' (JStr uuid))
                    ''_createdAt'' (JStr now)) ''_updatedAt'' (JStr now)
      in Inr (store_doc st collection (property_key (prop_get full ''_id'')) full,
              results @ [JObj full],
              journalBatch @ [Entry_insert collection full]))"
| "bulk_step uuid now collection (Op_update doc_id doc) (st, results, journalBatch) =
     (case get st collection doc_id of
        Undefined \<Rightarrow> Inl (Error (''not found: '' @ doc_id))
      | existing \<Rightarrow>
          (let updated = prop_set (spread (own_fields existing) doc) ''_updatedAt'' (JStr now)
           in Inr (store_doc st collection doc_id updated,
                   results @ [JObj updated],
                   journalBatch @ [Entry_update collection doc_id updated])))"
| "bulk_step uuid now collection (Op_patch doc_id doc) (st, results, journalBatch) =
     (case get st collection doc_id of
        Undefined \<Rightarrow> Inl (Error (''not found: '' @ doc_id))
      | existing \<Rightarrow>
          (let patched = deepMerge (own_fields existing) (prop_set doc ''_updatedAt'' (JStr now))
           in Inr (store_doc st collection doc_id patched,
                   results @ [JObj patched],
                   journalBatch @ [Entry_update collection doc_id patched])))"
| "bulk_step uuid now collection (Op_delete doc_id) (st, results, journalBatch) =
     (case get st collection doc_id of
        Undefined \<Rightarrow> Inl (Error (''not found: '' @ doc_id))
      | existing \<Rightarrow>
          Inr (remove_doc st collection doc_id,
               results @ [JObj [(''deleted'', JStr doc_id)]],
               journalBatch @ [Entry_delete collection doc_id]))"
| "bulk_step uuid now collection (Op_other name) (st, results, journalBatch) =
     Inr (st, results, journalBatch)"

text \<open>The loop over the operations; the operation at position \<open>i\<close> draws \<open>uuids i\<close> and
  \<open>clock i\<close>.\<close>

fun bulk_loop ::
  "(nat \<Rightarrow> string) \<Rightarrow> (nat \<Rightarrow> string) \<Rightarrow> string \<Rightarrow> nat \<Rightarrow> BulkOperation list \<Rightarrow> bulk_acc
   \<Rightarrow> error + bulk_acc" where
  "bulk_loop uuids clock collection i [] acc = Inr acc"
| "bulk_loop uuids clock collection i (op # ops) acc =
     (case bulk_step (uuids i) (clock i) collection op acc of
        Inl e \<Rightarrow> Inl e
      | Inr acc' \<Rightarrow> bulk_loop uuids clock collection (Suc i) ops acc')"

text \<open>
  \<^verbatim>\<open>bulk(collection, ops)\<close>: the snapshot taken first is a deep copy of the state
  (\<^verbatim>\<open>JSON.stringify\<close>, and \<^verbatim>\<open>JSON.parse\<close> in the \<^verbatim>\<open>catch\<close> block), which for JSON data
  is the state's value before the loop. On success the batch is written and
  \<^verbatim>\<open>{ ok: true, results }\<close> returned; on a throw the state is set back and the error
  thrown again.
\<close>

definition bulk ::
  "(nat \<Rightarrow> string) \<Rightarrow> (nat \<Rightarrow> string) \<Rightarrow> ShelfDB \<Rightarrow> string \<Rightarrow> BulkOperation list
   \<Rightarrow> (error + json list) \<times> ShelfDB" where
  "bulk uuids clock db collection ops =
     (let snapshot = state db
      in case bulk_loop uuids clock collection 0 ops (state db, [], []) of
           Inr (st, results, journalBatch) \<Rightarrow>
             (Inr results, writeJournalBatch (db\<lparr>state := st\<rparr>) journalBatch)
         | Inl e \<Rightarrow> (Inl e, db\<lparr>state := snapshot\<rparr>))"

section \<open>storage: snapshot, compaction and import\<close>

definition snapshot :: "ShelfDB \<Rightarrow> ShelfDB" where
  "snapshot db = db\<lparr>dataFile := Some (state db)\<rparr>"

definition compact :: "ShelfDB \<Rightarrow> ShelfDB" where
  "compact db = (snapshot db)\<lparr>journalFile := []\<rparr>"

definition importJSON :: "ShelfDB \<Rightarrow> DBState \<Rightarrow> ShelfDB" where
  "importJSON db st = compact (db\<lparr>state := st\<rparr>)"

text \<open>
  The loop of \<^verbatim>\<open>importNDJSON\<close>: a blank line is skipped; \<^verbatim>\<open>JSON.parse\<close> throws a
  SyntaxError on a malformed line, and reading \<^verbatim>\<open>obj.collection\<close> throws a TypeError
  when the line is \<^verbatim>\<open>null\<close>; every other line is inserted with \<^verbatim>\<open>this.insert\<close>, which
  writes its journal entry at once. The result holds the error thrown, if any, and the
  database as it is at that moment.
\<close>

fun importNDJSON_loop ::
  "js_builtins \<Rightarrow> (nat \<Rightarrow> string) \<Rightarrow> (nat \<Rightarrow> string) \<Rightarrow> nat \<Rightarrow> string list \<Rightarrow> ShelfDB
   \<Rightarrow> error option \<times> ShelfDB" where
  "importNDJSON_loop B uuids clock i [] db = (None, db)"
| "importNDJSON_loop B uuids clock i (line # lines) db =
     (if is_blank line then importNDJSON_loop B uuids clock (Suc i) lines db
      else (case JSON_parse B line of
              None \<Rightarrow> (Some SyntaxError, db)
            | Some JNull \<Rightarrow> (Some TypeError, db)
            | Some obj \<Rightarrow>
                importNDJSON_loop B uuids clock (Suc i) lines
                  (snd (insert_doc db (property_key (member obj ''collection''))
                          (own_entries (member obj ''doc'')) (uuids i) (clock i)))))"

text \<open>\<^verbatim>\<open>importNDJSON(lines)\<close>: the \<^verbatim>\<open>catch\<close> block sets the state back to the snapshot
  taken first and throws the error again.\<close>

definition importNDJSON ::
  "js_builtins \<Rightarrow> (nat \<Rightarrow> string) \<Rightarrow> (nat \<Rightarrow> string) \<Rightarrow> ShelfDB \<Rightarrow> string list
   \<Rightarrow> error option \<times> ShelfDB" where
  "importNDJSON B uuids clock db lines =
     (let snapshot = state db
      in case importNDJSON_loop B uuids clock 0 lines db of
           (None, db') \<Rightarrow> (None, db')
         | (Some e, db') \<Rightarrow> (Some e, db'\<lparr>state := snapshot\<rparr>))"

section \<open>Sample data\<close>

text \<open>
  Concrete inputs for the examples below. \<open>sample_parse\<close> is \<^verbatim>\<open>JSON.parse\<close> on the few
  texts that the examples use (\<open>dq\<close> is the double quote) and treats every other text as
  malformed; the remaining library functions are not reached by the examples, which use
  neither the text search nor a sort.
\<close>

definition dq :: string where
  "dq = [CHR 0x22]"

definition sample_line :: string where
  "sample_line = ''{'' @ dq @ ''collection'' @ dq @ '':'' @ dq @ ''books'' @ dq @ '',''
                 @ dq @ ''doc'' @ dq @ '':{'' @ dq @ ''title'' @ dq @ '':'' @ dq @ ''Dune'' @ dq @ ''}}''"

definition sample_filter :: string where
  "sample_filter = ''{'' @ dq @ ''meta'' @ dq @ '':{'' @ dq @ ''pages'' @ dq @ '':412}}''"

definition sample_parse :: "string \<Rightarrow> json option" where
  "sample_parse s =
     (if s = ''5'' then Some (JNum 5)
      else if s = ''true'' then Some (JBool True)
      else if s = dq @ ''a'' @ dq then Some (JStr ''a'')
      else if s = sample_filter then Some (JObj [(''meta'', JObj [(''pages'', JNum 412)])])
      else if s = sample_line
        then Some (JObj [(''collection'', JStr ''books''), (''doc'', JObj [(''title'', JStr ''Dune'')])])
      else None)"

definition sample_builtins :: js_builtins where
  "sample_builtins =
     \<lparr>JSON_parse = sample_parse,
      JSON_stringify = (\<lambda>v. []),
      toLowerCase = (\<lambda>s. s),
      array_sort = (\<lambda>cmp xs. xs),
      greater_than = (\<lambda>a b. False)\<rparr>"

definition sample_uuids :: "nat \<Rightarrow> string" where
  "sample_uuids i = ''id-'' @ show_nat i"

definition sample_clock :: "nat \<Rightarrow> string" where
  "sample_clock i = ''2024-01-01T00:00:0'' @ show_nat i @ ''.000Z''"

definition empty_db :: ShelfDB where
  "empty_db = \<lparr>state = \<lparr>collections = []\<rparr>, dataFile = Some \<lparr>collections = []\<rparr>, journalFile = []\<rparr>"

text \<open>The database after \<^verbatim>\<open>insert('books', {title: 'Dune', meta: {pages: 412}})\<close>.\<close>

definition dune :: Document where
  "dune = [(''title'', JStr ''Dune''), (''meta'', JObj [(''pages'', JNum 412)]),
           (''_id'', JStr ''id-0''), (''_createdAt'', JStr ''2024-01-01T00:00:00.000Z''),
           (''_updatedAt'', JStr ''2024-01-01T00:00:00.000Z'')]"

definition books_db :: ShelfDB where
  "books_db =
     snd (insert_doc empty_db ''books''
            [(''title'', JStr ''Dune''), (''meta'', JObj [(''pages'', JNum 412)])]
            (sample_uuids 0) (sample_clock 0))"

section \<open>Properties of objects\<close>

lemma prop_get_prop_set:
  "prop_get (prop_set out k v) k' = (if k' = k then Some v else prop_get out k')"
  by (induction out) auto

lemma prop_get_map_of: "prop_get out k = map_of out k"
  by (induction out) auto

lemma prop_get_None_iff: "prop_get out k = None \<longleftrightarrow> k \<notin> fst ` set out"
  by (simp add: prop_get_map_of map_of_eq_None_iff)

lemma prop_assign_ordinary: "k \<noteq> ''__proto__'' \<Longrightarrow> prop_assign out k v = prop_set out k v"
  by (simp add: prop_assign_def)

lemma deepMerge_step:
  "deepMerge out ((k, v) # b) = deepMerge (prop_assign out k (merged_value (prop_read out k) v)) b"
  by (simp add: merged_value_def)

lemma deepMerge_other_key:
  "k \<notin> fst ` set b \<Longrightarrow> prop_get (deepMerge out b) k = prop_get out k"
proof (induction b arbitrary: out)
  case Nil
  then show ?case by simp
next
  case (Cons e b)
  obtain k' v where e: "e = (k', v)" by (cases e)
  from Cons.prems e have neq: "k \<noteq> k'" and rest: "k \<notin> fst ` set b" by auto
  have "prop_get (deepMerge out (e # b)) k
        = prop_get (prop_assign out k' (merged_value (prop_read out k') v)) k"
    unfolding e deepMerge_step by (rule Cons.IH [OF rest])
  also have "\<dots> = prop_get out k"
    using neq by (simp add: prop_assign_def prop_get_prop_set)
  finally show ?case .
qed

lemma deepMerge_key:
  "distinct (map fst b) \<Longrightarrow> prop_get b k = Some v \<Longrightarrow> k \<noteq> ''__proto__'' \<Longrightarrow>
   prop_get (deepMerge out b) k = Some (merged_value (prop_read out k) v)"
proof (induction b arbitrary: out)
  case Nil
  then show ?case by simp
next
  case (Cons e b)
  obtain k' v' where e: "e = (k', v')" by (cases e)
  from Cons.prems(1) e have fresh: "k' \<notin> fst ` set b" and dist: "distinct (map fst b)"
    by auto
  show ?case
  proof (cases "k' = k")
    case True
    with Cons.prems(2) e have v: "v' = v" by simp
    have "prop_get (deepMerge out (e # b)) k
          = prop_get (prop_assign out k (merged_value (prop_read out k) v)) k"
      unfolding e deepMerge_step using fresh True v
      by (simp add: deepMerge_other_key)
    then show ?thesis using Cons.prems(3) by (simp add: prop_assign_ordinary prop_get_prop_set)
  next
    case False
    with Cons.prems(2) e have look: "prop_get b k = Some v" by simp
    have same: "prop_read (prop_assign out k' (merged_value (prop_read out k') v')) k = prop_read out k"
      using False by (simp add: prop_read_def prop_assign_def prop_get_prop_set)
    have "prop_get (deepMerge out (e # b)) k
          = Some (merged_value
                    (prop_read (prop_assign out k' (merged_value (prop_read out k') v')) k) v)"
      unfolding e deepMerge_step by (rule Cons.IH [OF dist look Cons.prems(3)])
    then show ?thesis by (simp add: same)
  qed
qed

text \<open>
  At every key other than \<open>__proto__\<close>, a deep merge of a partial object with distinct
  keys reads as follows: a key that the partial does not have keeps the existing value;
  at a key of the partial the result is the recursive merge when the existing and the
  incoming value are both plain objects, and the incoming value in every other case.
\<close>

lemma deepMerge_lookup:
  assumes "distinct (map fst b)" and "k \<noteq> ''__proto__''"
  shows "prop_get (deepMerge a b) k =
        (case prop_get b k of
           None \<Rightarrow> prop_get a k
         | Some v \<Rightarrow>
             (case (prop_get a k, v) of
                (Some (JObj eo), JObj vo) \<Rightarrow> Some (JObj (deepMerge eo vo))
              | _ \<Rightarrow> Some v))"
proof (cases "prop_get b k")
  case None
  then have "k \<notin> fst ` set b" by (simp add: prop_get_None_iff)
  then show ?thesis using None by (simp add: deepMerge_other_key)
next
  case (Some v)
  have "prop_get (deepMerge a b) k = Some (merged_value (prop_read a k) v)"
    by (rule deepMerge_key [OF assms(1) Some assms(2)])
  then show ?thesis using Some assms(2)
    by (cases v; cases "prop_get a k"; simp add: merged_value_def prop_read_def split: json.splits)
qed

section \<open>Deep merge\<close>

text \<open>
  C7. The claim is that for each key of the partial the incoming value is merged into or
  replaces the existing value, so that the result holds the key. For the key
  \<open>__proto__\<close>, which \<^verbatim>\<open>JSON.parse\<close> creates as an ordinary own property of the partial,
  \<open>deepMerge\<close> reads \<^verbatim>\<open>Object.prototype\<close> as the existing value and assigns through the
  setter of \<open>__proto__\<close>: merging \<open>{__proto__: {x: 1}}\<close> or \<open>{__proto__: null}\<close> into
  \<open>{a: 1}\<close> gives an object whose only own property is \<open>a\<close>, whereas merging
  \<open>{b: {x: 1}}\<close> gives \<open>{a: 1, b: {x: 1}}\<close>.
\<close>

theorem deepMerge_skips_proto_key:
  "prop_get [(''a'', JNum 1)] ''__proto__'' = None
   \<and> deepMerge [(''a'', JNum 1)] [(''__proto__'', JObj [(''x'', JNum 1)])] = [(''a'', JNum 1)]
   \<and> deepMerge [(''a'', JNum 1)] [(''__proto__'', JNull)] = [(''a'', JNum 1)]
   \<and> deepMerge [(''a'', JNum 1)] [(''b'', JObj [(''x'', JNum 1)])]
       = [(''a'', JNum 1), (''b'', JObj [(''x'', JNum 1)])]"
  by code_simp

section \<open>Properties of the store\<close>

lemma books_db_eq:
  "books_db = \<lparr>state = \<lparr>collections = [(''books'', [(''id-0'', dune)])]\<rparr>,
     dataFile = Some \<lparr>collections = []\<rparr>, journalFile = [Parsed (Entry_insert ''books'' dune)]\<rparr>"
  by code_simp








lemma slice_nonneg:
  "0 \<le> offset \<Longrightarrow> 0 \<le> limit \<Longrightarrow>
   slice xs offset (offset + limit) = take (nat limit) (drop (nat offset) xs)"
  unfolding slice_def Let_def
  by (cases "offset \<le> int (length xs)") (simp_all add: min_def)

section \<open>Failed single-document mutations\<close>

text \<open>
  C9. The claim is that \<open>update\<close>, \<open>patch\<close> and \<open>delete\<close> of an id that is absent from the
  collection, or of a collection that does not exist, return the not-found result and
  leave the state and the journal unchanged. The three methods test the truthiness of
  \<^verbatim>\<open>col[id]\<close>, which for the absent id \<open>constructor\<close> is the inherited member of
  \<^verbatim>\<open>Object.prototype\<close>: \<open>update\<close> and \<open>patch\<close> store and journal a new document under that
  id, \<open>delete\<close> returns \<^verbatim>\<open>true\<close> and journals a delete entry, and \<open>update\<close> on the missing
  collection \<open>films\<close> creates the collection.
\<close>

theorem inherited_id_is_not_missing:
  "prop_get (collection_or_empty (state books_db) ''books'') ''constructor'' = None
   \<and> update books_db ''books'' ''constructor'' [(''title'', JStr ''Emma'')] (sample_clock 1)
     = (Some [(''title'', JStr ''Emma''), (''_updatedAt'', JStr ''2024-01-01T00:00:01.000Z'')],
        \<lparr>state = \<lparr>collections = [(''books'',
             [(''id-0'', dune),
              (''constructor'',
                 [(''title'', JStr ''Emma''), (''_updatedAt'', JStr ''2024-01-01T00:00:01.000Z'')])])]\<rparr>,
         dataFile = Some \<lparr>collections = []\<rparr>,
         journalFile = [Parsed (Entry_insert ''books'' dune),
           Parsed (Entry_update ''books'' ''constructor''
             [(''title'', JStr ''Emma''), (''_updatedAt'', JStr ''2024-01-01T00:00:01.000Z'')])]\<rparr>)
   \<and> patch books_db ''books'' ''constructor'' [(''title'', JStr ''Emma'')] (sample_clock 1)
     = update books_db ''books'' ''constructor'' [(''title'', JStr ''Emma'')] (sample_clock 1)
   \<and> delete books_db ''books'' ''constructor''
     = (True,
        \<lparr>state = \<lparr>collections = [(''books'', [(''id-0'', dune)])]\<rparr>,
         dataFile = Some \<lparr>collections = []\<rparr>,
         journalFile = [Parsed (Entry_insert ''books'' dune),
           Parsed (Entry_delete ''books'' ''constructor'')]\<rparr>)
   \<and> prop_get (collections (state books_db)) ''films'' = None
   \<and> state (snd (update books_db ''films'' ''constructor'' [] (sample_clock 1)))
     = \<lparr>collections = [(''books'', [(''id-0'', dune)]),
          (''films'', [(''constructor'', [(''_updatedAt'', JStr ''2024-01-01T00:00:01.000Z'')])])]\<rparr>"
  by code_simp

section \<open>Compaction\<close>

text \<open>
  C8. \<open>compact()\<close> does not change the state in memory, and for every collection and every
  query options value \<open>query\<close> returns the same total and the same items before and after
  the compaction.
\<close>

theorem compact_preserves_queries:
  "state (compact db) = state db
   \<and> query B (state (compact db)) collection opts = query B (state db) collection opts"
  by (simp add: compact_def snapshot_def)

section \<open>Replace (update)\<close>




section \<open>Reserved fields\<close>

text \<open>
  C3. The claim is that caller-supplied \<open>_id\<close>, \<open>_createdAt\<close> and \<open>_updatedAt\<close> are
  ignored by insert, update and patch, so that \<open>_id\<close> and \<open>_createdAt\<close> never change and
  \<open>_updatedAt >= _createdAt\<close> holds. \<open>insert\<close> writes the three reserved fields after
  the caller's fields, but \<open>update\<close> and \<open>patch\<close> write only \<open>_updatedAt\<close> after them:
  on the stored document \<open>dune\<close>, an update or a patch whose fields hold \<open>_id\<close> and
  \<open>_createdAt\<close> stores the caller's values, under the unchanged key \<open>id-0\<close>, with a
  creation time later than the update time.
\<close>

theorem update_overwrites_reserved_fields:
  "get (state books_db) ''books'' ''id-0'' = Own dune
   \<and> update books_db ''books'' ''id-0''
       [(''_id'', JStr ''forged''), (''_createdAt'', JStr ''9999-12-31T23:59:59.999Z'')] (sample_clock 1)
     = (Some [(''title'', JStr ''Dune''), (''meta'', JObj [(''pages'', JNum 412)]),
              (''_id'', JStr ''forged''), (''_createdAt'', JStr ''9999-12-31T23:59:59.999Z''),
              (''_updatedAt'', JStr ''2024-01-01T00:00:01.000Z'')],
        \<lparr>state = \<lparr>collections = [(''books'', [(''id-0'',
             [(''title'', JStr ''Dune''), (''meta'', JObj [(''pages'', JNum 412)]),
              (''_id'', JStr ''forged''), (''_createdAt'', JStr ''9999-12-31T23:59:59.999Z''),
              (''_updatedAt'', JStr ''2024-01-01T00:00:01.000Z'')])])]\<rparr>,
         dataFile = Some \<lparr>collections = []\<rparr>,
         journalFile = [Parsed (Entry_insert ''books'' dune),
           Parsed (Entry_update ''books'' ''id-0''
             [(''title'', JStr ''Dune''), (''meta'', JObj [(''pages'', JNum 412)]),
              (''_id'', JStr ''forged''), (''_createdAt'', JStr ''9999-12-31T23:59:59.999Z''),
              (''_updatedAt'', JStr ''2024-01-01T00:00:01.000Z'')])]\<rparr>)
   \<and> fst (patch books_db ''books'' ''id-0''
       [(''_id'', JStr ''forged''), (''_createdAt'', JStr ''9999-12-31T23:59:59.999Z'')] (sample_clock 1))
     = Some [(''title'', JStr ''Dune''), (''meta'', JObj [(''pages'', JNum 412)]),
              (''_id'', JStr ''forged''), (''_createdAt'', JStr ''9999-12-31T23:59:59.999Z''),
              (''_updatedAt'', JStr ''2024-01-01T00:00:01.000Z'')]"
  by code_simp

section \<open>Replay of the journal\<close>

text \<open>
  C1. The claim is that replaying the snapshot and the journal gives the state that the
  mutations built in memory, an update entry being stored as it is. \<open>applyJournal\<close>
  merges an update entry into the replayed document with \<open>deepMerge\<close> instead: after
  \<open>insert\<close> of a document with \<open>meta = {pages: 412}\<close> and \<open>update\<close> with
  \<open>{meta: {isbn: 7}}\<close>, the state in memory holds \<open>meta = {isbn: 7}\<close> and the state
  that \<open>load\<close> rebuilds from the files holds \<open>meta = {pages: 412, isbn: 7}\<close>.
\<close>

theorem replay_differs_after_update:
  "dataFile books_db = Some \<lparr>collections = []\<rparr>
   \<and> journalFile books_db = [Parsed (Entry_insert ''books'' dune)]
   \<and> get (state books_db) ''books'' ''id-0'' = Own dune
   \<and> get (state (snd (update books_db ''books'' ''id-0'' [(''meta'', JObj [(''isbn'', JNum 7)])] (sample_clock 1))))
        ''books'' ''id-0''
     = Own [(''title'', JStr ''Dune''), (''meta'', JObj [(''isbn'', JNum 7)]),
             (''_id'', JStr ''id-0''), (''_createdAt'', JStr ''2024-01-01T00:00:00.000Z''),
             (''_updatedAt'', JStr ''2024-01-01T00:00:01.000Z'')]
   \<and> get (state (load (snd (update books_db ''books'' ''id-0'' [(''meta'', JObj [(''isbn'', JNum 7)])] (sample_clock 1)))))
        ''books'' ''id-0''
     = Own [(''title'', JStr ''Dune''), (''meta'', JObj [(''pages'', JNum 412), (''isbn'', JNum 7)]),
             (''_id'', JStr ''id-0''), (''_createdAt'', JStr ''2024-01-01T00:00:00.000Z''),
             (''_updatedAt'', JStr ''2024-01-01T00:00:01.000Z'')]"
  by code_simp

section \<open>Import of newline-delimited records\<close>

text \<open>
  C5. The claim is that an operation which surfaces an error has rolled the state back and
  has left no journal entry for the changes rolled back. \<open>importNDJSON\<close> on a well-formed
  line followed by a malformed one throws the SyntaxError with the state in memory rolled
  back to the empty state, but the journal keeps the entry of the first line, which
  \<open>insert\<close> appended at once; \<open>load\<close> then brings the rolled-back document back.
\<close>

theorem importNDJSON_keeps_journal_entries:
  "JSON_parse sample_builtins sample_line
     = Some (JObj [(''collection'', JStr ''books''), (''doc'', JObj [(''title'', JStr ''Dune'')])])
   \<and> JSON_parse sample_builtins ''{oops'' = None
   \<and> importNDJSON sample_builtins sample_uuids sample_clock empty_db [sample_line, ''{oops'']
     = (Some SyntaxError,
        \<lparr>state = \<lparr>collections = []\<rparr>,
         dataFile = Some \<lparr>collections = []\<rparr>,
         journalFile = [Parsed (Entry_insert ''books''
            [(''title'', JStr ''Dune''), (''_id'', JStr ''id-0''),
             (''_createdAt'', JStr ''2024-01-01T00:00:00.000Z''),
             (''_updatedAt'', JStr ''2024-01-01T00:00:00.000Z'')])]\<rparr>)
   \<and> state (load (snd (importNDJSON sample_builtins sample_uuids sample_clock empty_db
                          [sample_line, ''{oops''])))
     = \<lparr>collections = [(''books'', [(''id-0'',
            [(''title'', JStr ''Dune''), (''_id'', JStr ''id-0''),
             (''_createdAt'', JStr ''2024-01-01T00:00:00.000Z''),
             (''_updatedAt'', JStr ''2024-01-01T00:00:00.000Z'')])])]\<rparr>"
  by code_simp

section \<open>Pagination\<close>

text \<open>
  C6, as stated, fails: \<open>query\<close> does not reject a negative offset. With one stored
  document and \<open>offset = -1\<close> it returns the page that \<^verbatim>\<open>slice(-1, 99)\<close> selects.
\<close>

theorem query_accepts_negative_offset_counterexample:
  "query sample_builtins (state books_db) ''books''
     \<lparr>q_opt = None, limit_opt = None, offset_opt = Some (- 1), sort_opt = None\<rparr>
   = \<lparr>total = 1, items = [dune]\<rparr>"
  by code_simp

text \<open>
  C6, amended. \<open>offset\<close> defaults to 0 and \<open>limit\<close> to 100, and \<open>total\<close> is always the
  number of documents that match the filter, counted before sort and pagination. \<open>query\<close>
  itself checks nothing; the check is made by the HTTP handler, which throws
  \<open>Invalid limit\<close> or \<open>Invalid offset\<close> for a negative value before it calls \<open>query\<close>.
  When offset and limit are non-negative integers, the handler returns the result of
  \<open>query\<close>, whose items are the filtered-and-sorted sequence sliced
  \<open>[offset, offset + limit)\<close>.
\<close>

theorem query_paginates:
  assumes "offset = (case offset_opt opts of None \<Rightarrow> 0 | Some n \<Rightarrow> n)"
    and "limit = (case limit_opt opts of None \<Rightarrow> 100 | Some n \<Rightarrow> n)"
  shows "total (query B (state db) collection opts)
           = length (matching_docs B (state db) collection (q_opt opts))
       \<and> (0 \<le> offset \<and> 0 \<le> limit \<longrightarrow>
            items (query B (state db) collection opts)
              = take (nat limit) (drop (nat offset)
                  (sorted_docs B (sort_opt opts) (matching_docs B (state db) collection (q_opt opts))))
            \<and> get_collection_handler B db collection opts = Inr (query B (state db) collection opts))
       \<and> (limit < 0 \<longrightarrow> get_collection_handler B db collection opts = Inl (Error ''Invalid limit''))
       \<and> (0 \<le> limit \<and> offset < 0 \<longrightarrow>
            get_collection_handler B db collection opts = Inl (Error ''Invalid offset''))"
proof (intro conjI impI)
  show "total (query B (state db) collection opts)
          = length (matching_docs B (state db) collection (q_opt opts))"
    by (simp add: query_def Let_def)
next
  assume nonneg: "0 \<le> offset \<and> 0 \<le> limit"
  then show "items (query B (state db) collection opts)
               = take (nat limit) (drop (nat offset)
                   (sorted_docs B (sort_opt opts) (matching_docs B (state db) collection (q_opt opts))))"
    using slice_nonneg [of offset limit] by (simp add: query_def Let_def assms [symmetric])
next
  assume nonneg: "0 \<le> offset \<and> 0 \<le> limit"
  then show "get_collection_handler B db collection opts = Inr (query B (state db) collection opts)"
    unfolding assms get_collection_handler_def by (auto split: option.splits)
next
  assume "limit < 0"
  then show "get_collection_handler B db collection opts = Inl (Error ''Invalid limit'')"
    unfolding assms get_collection_handler_def by (auto split: option.splits)
next
  assume "0 \<le> limit \<and> offset < 0"
  then show "get_collection_handler B db collection opts = Inl (Error ''Invalid offset'')"
    unfolding assms get_collection_handler_def by (auto split: option.splits)
qed

theorem query_paginates_witness:
  "(0::int) = (case offset_opt \<lparr>q_opt = None, limit_opt = Some 1, offset_opt = None, sort_opt = None\<rparr>
                 of None \<Rightarrow> 0 | Some n \<Rightarrow> n)
   \<and> (1::int) = (case limit_opt \<lparr>q_opt = None, limit_opt = Some 1, offset_opt = None, sort_opt = None\<rparr>
                 of None \<Rightarrow> 100 | Some n \<Rightarrow> n)
   \<and> get_collection_handler sample_builtins books_db ''books''
        \<lparr>q_opt = None, limit_opt = Some 1, offset_opt = None, sort_opt = None\<rparr>
       = Inr \<lparr>total = 1, items = [dune]\<rparr>
   \<and> get_collection_handler sample_builtins books_db ''books''
        \<lparr>q_opt = None, limit_opt = Some (- 1), offset_opt = None, sort_opt = None\<rparr>
       = Inl (Error ''Invalid limit'')
   \<and> get_collection_handler sample_builtins books_db ''books''
        \<lparr>q_opt = None, limit_opt = None, offset_opt = Some (- 1), sort_opt = None\<rparr>
       = Inl (Error ''Invalid offset'')"
proof -
  let ?page = "\<lparr>q_opt = None, limit_opt = Some 1, offset_opt = None, sort_opt = None\<rparr>"
  have o: "(0::int) = (case offset_opt ?page of None \<Rightarrow> 0 | Some n \<Rightarrow> n)" by simp
  have l: "(1::int) = (case limit_opt ?page of None \<Rightarrow> 100 | Some n \<Rightarrow> n)" by simp
  have docs: "take (nat 1) (drop (nat 0)
                (sorted_docs sample_builtins (sort_opt ?page)
                   (matching_docs sample_builtins (state books_db) ''books'' (q_opt ?page)))) = [dune]"
    by code_simp
  have len: "length (matching_docs sample_builtins (state books_db) ''books'' (q_opt ?page)) = 1"
    by code_simp
  have page: "query sample_builtins (state books_db) ''books'' ?page = \<lparr>total = 1, items = [dune]\<rparr>"
    using query_paginates [OF o l, of sample_builtins books_db "''books''"] docs len by simp
  have ok: "get_collection_handler sample_builtins books_db ''books'' ?page
              = Inr \<lparr>total = 1, items = [dune]\<rparr>"
    using query_paginates [OF o l, of sample_builtins books_db "''books''"] page by simp
  have neg_limit: "get_collection_handler sample_builtins books_db ''books''
        \<lparr>q_opt = None, limit_opt = Some (- 1), offset_opt = None, sort_opt = None\<rparr>
       = Inl (Error ''Invalid limit'')"
    using query_paginates [of 0 "\<lparr>q_opt = None, limit_opt = Some (- 1), offset_opt = None, sort_opt = None\<rparr>"
        "- 1" sample_builtins books_db "''books''"]
    by simp
  have neg_offset: "get_collection_handler sample_builtins books_db ''books''
        \<lparr>q_opt = None, limit_opt = None, offset_opt = Some (- 1), sort_opt = None\<rparr>
       = Inl (Error ''Invalid offset'')"
    using query_paginates [of "- 1" "\<lparr>q_opt = None, limit_opt = None, offset_opt = Some (- 1), sort_opt = None\<rparr>"
        100 sample_builtins books_db "''books''"]
    by simp
  show ?thesis using o l ok neg_limit neg_offset by simp
qed

section \<open>Filters\<close>

lemma strict_equals_object: "strict_equals a (Some (JObj x)) = False"
  by (cases a rule: option.exhaust; (simp | (rename_tac v, case_tac v; simp)))

text \<open>
  C10, as stated, fails: a filter that parses to a scalar does not always match every
  document. The filter text \<open>"a"\<close> parses to the string \<open>a\<close>, whose entries are the
  indexed characters \<open>[("0", "a")]\<close>, and a document without a field \<open>0\<close> is not matched.
\<close>

theorem filterByQuery_string_scalar_counterexample:
  "JSON_parse sample_builtins (dq @ ''a'' @ dq) = Some (JStr ''a'')
   \<and> \<not> filterByQuery sample_builtins dune (Some (dq @ ''a'' @ dq))"
  by code_simp

text \<open>
  C10, amended. An absent or empty filter matches every document; a filter text that
  parses to a number or to a boolean matches every document, the equality check running
  over no entry; a filter text that parses to a string matches the documents that hold
  each character of the string under its index as key; and a filter text that parses to
  an object holding an object at some key matches no document, whatever the document
  holds at that key.
\<close>

theorem filterByQuery_scalars_and_nested_objects:
  "filterByQuery B doc None
   \<and> filterByQuery B doc (Some [])
   \<and> (JSON_parse B q = Some (JNum n) \<longrightarrow> filterByQuery B doc (Some q))
   \<and> (JSON_parse B q = Some (JBool b) \<longrightarrow> filterByQuery B doc (Some q))
   \<and> (q \<noteq> [] \<and> JSON_parse B q = Some (JStr s) \<longrightarrow>
        filterByQuery B doc (Some q)
          = list_all (\<lambda>(k, v). strict_equals (prop_get doc k) (Some v)) (indexed (map (\<lambda>c. JStr [c]) s)))
   \<and> (q \<noteq> [] \<and> JSON_parse B q = Some (JObj entries) \<and> (k, JObj x) \<in> set entries \<longrightarrow>
        \<not> filterByQuery B doc (Some q))"
proof (intro conjI impI)
  show "filterByQuery B doc None" by (simp add: filterByQuery_def)
  show "filterByQuery B doc (Some [])" by (simp add: filterByQuery_def)
next
  assume "JSON_parse B q = Some (JNum n)"
  then show "filterByQuery B doc (Some q)"
    by (simp add: filterByQuery_def Object_entries_def own_entries_def)
next
  assume "JSON_parse B q = Some (JBool b)"
  then show "filterByQuery B doc (Some q)"
    by (simp add: filterByQuery_def Object_entries_def own_entries_def)
next
  assume "q \<noteq> [] \<and> JSON_parse B q = Some (JStr s)"
  then show "filterByQuery B doc (Some q)
          = list_all (\<lambda>(k, v). strict_equals (prop_get doc k) (Some v)) (indexed (map (\<lambda>c. JStr [c]) s))"
    by (simp add: filterByQuery_def Object_entries_def own_entries_def)
next
  assume a: "q \<noteq> [] \<and> JSON_parse B q = Some (JObj entries) \<and> (k, JObj x) \<in> set entries"
  then have mem: "(k, JObj x) \<in> set entries" by simp
  have "\<not> (case (k, JObj x) of (k, v) \<Rightarrow> strict_equals (prop_get doc k) (Some v))"
    by (simp add: strict_equals_object)
  with mem have "\<exists>e \<in> set entries. \<not> (case e of (k, v) \<Rightarrow> strict_equals (prop_get doc k) (Some v))"
    by (rule rev_bexI)
  then have "\<not> list_all (\<lambda>(k, v). strict_equals (prop_get doc k) (Some v)) entries"
    by (simp add: list_all_iff)
  with a show "\<not> filterByQuery B doc (Some q)"
    by (simp add: filterByQuery_def Object_entries_def own_entries_def)
qed

theorem filterByQuery_scalars_and_nested_objects_witness:
  "JSON_parse sample_builtins ''5'' = Some (JNum 5)
   \<and> filterByQuery sample_builtins dune (Some ''5'')
   \<and> JSON_parse sample_builtins ''true'' = Some (JBool True)
   \<and> filterByQuery sample_builtins dune (Some ''true'')
   \<and> dq @ ''a'' @ dq \<noteq> []
   \<and> JSON_parse sample_builtins (dq @ ''a'' @ dq) = Some (JStr ''a'')
   \<and> filterByQuery sample_builtins [(''0'', JStr ''a'')] (Some (dq @ ''a'' @ dq))
   \<and> sample_filter \<noteq> []
   \<and> JSON_parse sample_builtins sample_filter = Some (JObj [(''meta'', JObj [(''pages'', JNum 412)])])
   \<and> (''meta'', JObj [(''pages'', JNum 412)]) \<in> set [(''meta'', JObj [(''pages'', JNum 412)])]
   \<and> prop_get dune ''meta'' = Some (JObj [(''pages'', JNum 412)])
   \<and> \<not> filterByQuery sample_builtins dune (Some sample_filter)"
proof -
  have five: "JSON_parse sample_builtins ''5'' = Some (JNum 5)" by code_simp
  have true: "JSON_parse sample_builtins ''true'' = Some (JBool True)" by code_simp
  have sne: "dq @ ''a'' @ dq \<noteq> []" by code_simp
  have str: "JSON_parse sample_builtins (dq @ ''a'' @ dq) = Some (JStr ''a'')" by code_simp
  have chars: "list_all (\<lambda>(k, v). strict_equals (prop_get [(''0'', JStr ''a'')] k) (Some v))
                 (indexed (map (\<lambda>c. JStr [c]) ''a''))"
    by code_simp
  have ne: "sample_filter \<noteq> []" by code_simp
  have nested: "JSON_parse sample_builtins sample_filter = Some (JObj [(''meta'', JObj [(''pages'', JNum 412)])])"
    by code_simp
  have mem: "(''meta'', JObj [(''pages'', JNum 412)]) \<in> set [(''meta'', JObj [(''pages'', JNum 412)])]"
    by simp
  have meta: "prop_get dune ''meta'' = Some (JObj [(''pages'', JNum 412)])" by code_simp
  have a: "filterByQuery sample_builtins dune (Some ''5'')"
    using filterByQuery_scalars_and_nested_objects [of sample_builtins dune "''5''" 5] five by simp
  have b: "filterByQuery sample_builtins dune (Some ''true'')"
    using filterByQuery_scalars_and_nested_objects [of sample_builtins dune "''true''" _ True] true by simp
  have c: "filterByQuery sample_builtins [(''0'', JStr ''a'')] (Some (dq @ ''a'' @ dq))"
    using filterByQuery_scalars_and_nested_objects
      [of sample_builtins "[(''0'', JStr ''a'')]" "dq @ ''a'' @ dq" _ _ "''a''"] sne str chars
    by simp
  have d: "\<not> filterByQuery sample_builtins dune (Some sample_filter)"
    using filterByQuery_scalars_and_nested_objects
      [of sample_builtins dune sample_filter _ _ _ "[(''meta'', JObj [(''pages'', JNum 412)])]"
          "''meta''" "[(''pages'', JNum 412)]"] ne nested mem
    by simp
  show ?thesis using five true sne str ne nested mem meta a b c d by simp
qed

section \<open>Bulk transactions\<close>

text \<open>
  C4. The claim is that the first operation of a batch that addresses a missing id aborts
  the whole batch, with the state rolled back and nothing written to the journal. For the
  batch \<open>[insert A, insert B, delete constructor]\<close> on the empty database, where no
  document is stored under \<open>constructor\<close>, the not-found test of \<open>bulk\<close> reads the
  inherited member of \<^verbatim>\<open>Object.prototype\<close> and does not throw: the call returns three
  results, both documents stay in the state, and the journal receives the two insert
  entries and a delete entry. The same batch with the id \<open>missing\<close> is aborted and leaves
  the database unchanged.
\<close>

theorem bulk_commits_missing_inherited_id:
  "bulk sample_uuids sample_clock empty_db ''books''
        [Op_insert [(''title'', JStr ''A'')], Op_insert [(''title'', JStr ''B'')], Op_delete ''constructor'']
   = (Inr [JObj [(''title'', JStr ''A''), (''_id'', JStr ''id-0''),
                 (''_createdAt'', JStr ''2024-01-01T00:00:00.000Z''),
                 (''_updatedAt'', JStr ''2024-01-01T00:00:00.000Z'')],
           JObj [(''title'', JStr ''B''), (''_id'', JStr ''id-1''),
                 (''_createdAt'', JStr ''2024-01-01T00:00:01.000Z''),
                 (''_updatedAt'', JStr ''2024-01-01T00:00:01.000Z'')],
           JObj [(''deleted'', JStr ''constructor'')]],
      \<lparr>state = \<lparr>collections = [(''books'',
           [(''id-0'', [(''title'', JStr ''A''), (''_id'', JStr ''id-0''),
                 (''_createdAt'', JStr ''2024-01-01T00:00:00.000Z''),
                 (''_updatedAt'', JStr ''2024-01-01T00:00:00.000Z'')]),
            (''id-1'', [(''title'', JStr ''B''), (''_id'', JStr ''id-1''),
                 (''_createdAt'', JStr ''2024-01-01T00:00:01.000Z''),
                 (''_updatedAt'', JStr ''2024-01-01T00:00:01.000Z'')])])]\<rparr>,
       dataFile = Some \<lparr>collections = []\<rparr>,
       journalFile =
         [Parsed (Entry_insert ''books'' [(''title'', JStr ''A''), (''_id'', JStr ''id-0''),
                 (''_createdAt'', JStr ''2024-01-01T00:00:00.000Z''),
                 (''_updatedAt'', JStr ''2024-01-01T00:00:00.000Z'')]),
          Parsed (Entry_insert ''books'' [(''title'', JStr ''B''), (''_id'', JStr ''id-1''),
                 (''_createdAt'', JStr ''2024-01-01T00:00:01.000Z''),
                 (''_updatedAt'', JStr ''2024-01-01T00:00:01.000Z'')]),
          Parsed (Entry_delete ''books'' ''constructor'')]\<rparr>)
   \<and> bulk sample_uuids sample_clock empty_db ''books''
        [Op_insert [(''title'', JStr ''A'')], Op_insert [(''title'', JStr ''B'')], Op_delete ''missing'']
     = (Inl (Error ''not found: missing''), empty_db)"
  by code_simp

end
